theory Spec2Isabelle
  imports Complex_Main
begin

section \<open>Data model\<close>

text \<open>
  Modelled from the spec: the classes \<open>GeoPoint\<close>, \<open>Segment\<close> and \<open>Route\<close> of
  \<open>route_to_art.models\<close>, which \<open>main.py\<close> imports (the spec: a point has a
  latitude, a longitude, an optional elevation and an optional timestamp; a segment is
  an ordered sequence of points; a route is an optional name and an ordered sequence of
  segments). The validators read only these attributes. Latitude, longitude and
  elevation are Python floats, represented by the real number a finite double denotes
  (the only float operations the validators perform are \<open>abs\<close> and a comparison with
  \<open>85.0\<close>, both exact on finite doubles). A timestamp is a \<open>datetime\<close>; it is
  represented by its position on the time line in microseconds, so two timestamps
  are always comparable. Timestamps that Python cannot compare (an offset-naive with
  an offset-aware \<open>datetime\<close>) are the subject of a second embedding of
  \<open>validate_timestamps\<close> below.
\<close>

record GeoPoint =
  latitude :: real
  longitude :: real
  elevation :: "real option"
  timestamp :: "int option"

record Segment =
  points :: "GeoPoint list"

record Route =
  name :: "string option"
  segments :: "Segment list"

section \<open>Python primitives\<close>

datatype error = IndexError | TypeError

text \<open>\<open>str(n)\<close> for a non-negative Python int: its decimal digits.\<close>

definition digit :: "nat \<Rightarrow> char" where
  "digit d = ''0123456789'' ! d"

fun str_nat :: "nat \<Rightarrow> string" where
  "str_nat n = (if n < 10 then [digit n] else str_nat (n div 10) @ [digit (n mod 10)])"

declare str_nat.simps [simp del]

text \<open>\<open>str(n)\<close> for any Python int.\<close>

definition str_int :: "int \<Rightarrow> string" where
  "str_int k = (if k < 0 then CHR ''-'' # str_nat (nat (- k)) else str_nat (nat k))"

text \<open>\<open>xs[k]\<close> on a Python list: a negative index counts from the end, an index out
  of range raises \<open>IndexError\<close>.\<close>

definition getitem :: "'a list \<Rightarrow> int \<Rightarrow> error + 'a" where
  "getitem xs k =
     (let n = int (length xs); j = (if k < 0 then n + k else k)
      in if 0 \<le> j \<and> j < n then Inr (xs ! nat j) else Inl IndexError)"

text \<open>Truth value of an optional \<open>datetime\<close>: \<open>None\<close> is false, every \<open>datetime\<close>
  object is true.\<close>

fun truthy :: "int option \<Rightarrow> bool" where
  "truthy None = False"
| "truthy (Some t) = True"

section \<open>Validators\<close>

text \<open>
  A validator receives the route object and builds the local list \<open>issues\<close>. The
  state of a call holds both: the route as it stands and the list built so far. A
  call either raises (\<open>Inl\<close>) or returns (\<open>Inr\<close>) the final state, whose \<open>issues\<close>
  is the list the Python function returns.
\<close>

record vstate =
  route :: Route
  issues :: "string list"

text \<open>\<open>issues.append(m)\<close>\<close>

definition append_issue :: "string \<Rightarrow> vstate \<Rightarrow> vstate" where
  "append_issue m s = s\<lparr>issues := issues s @ [m]\<rparr>"

definition init_state :: "Route \<Rightarrow> vstate" where
  "init_state r = \<lparr>route = r, issues = []\<rparr>"

subsection \<open>\<open>validate_segments\<close> (main.py, lines 594-626)\<close>

definition msg_no_segments :: string where
  "msg_no_segments = ''Route has no segments''"

definition msg_no_points :: "nat \<Rightarrow> string" where
  "msg_no_points i = ''Segment '' @ str_nat (i + 1) @ '' has no points''"

definition msg_one_point :: "nat \<Rightarrow> string" where
  "msg_one_point i = ''Segment '' @ str_nat (i + 1) @ '' has only one point - no route data''"

definition msg_many_points :: "nat \<Rightarrow> nat \<Rightarrow> string" where
  "msg_many_points i n =
     ''Segment '' @ str_nat (i + 1) @ '' has '' @ str_nat n @ '' points, ''
       @ ''which may cause performance issues''"

text \<open>The body of \<open>for i, segment in enumerate(route.segments)\<close>; \<open>continue\<close> after
  the empty-segment finding skips the two length checks.\<close>

fun segments_loop :: "(nat \<times> Segment) list \<Rightarrow> vstate \<Rightarrow> vstate" where
  "segments_loop [] s = s"
| "segments_loop ((i, segment) # rest) s =
     (if points segment = [] then segments_loop rest (append_issue (msg_no_points i) s)
      else
        let s1 = (if length (points segment) < 2
                  then append_issue (msg_one_point i) s else s);
            s2 = (if length (points segment) > 10000
                  then append_issue (msg_many_points i (length (points segment))) s1 else s1)
        in segments_loop rest s2)"

definition validate_segments :: "Route \<Rightarrow> error + vstate" where
  "validate_segments r =
     (let s = init_state r in
      if segments (route s) = [] then Inr (append_issue msg_no_segments s)
      else Inr (segments_loop (enumerate 0 (segments (route s))) s))"

subsection \<open>\<open>validate_coordinates\<close> (main.py, lines 569-591)\<close>

text \<open>The message interpolates \<open>point.latitude\<close>, a float; its textual form is the
  parameter \<open>repr\<close> (Python's \<open>float.__repr__\<close>, which is not modelled).\<close>

definition msg_extreme_latitude :: "(real \<Rightarrow> string) \<Rightarrow> nat \<Rightarrow> nat \<Rightarrow> real \<Rightarrow> string" where
  "msg_extreme_latitude repr i j lat =
     ''Point '' @ str_nat (j + 1) @ '' in segment '' @ str_nat (i + 1)
       @ '' has extreme latitude ('' @ repr lat @ '')''
       @ '' which may cause issues with map projections''"

text \<open>The body of \<open>for j, point in enumerate(segment.points)\<close>.\<close>

fun coordinates_points_loop ::
  "(real \<Rightarrow> string) \<Rightarrow> nat \<Rightarrow> (nat \<times> GeoPoint) list \<Rightarrow> vstate \<Rightarrow> vstate" where
  "coordinates_points_loop repr i [] s = s"
| "coordinates_points_loop repr i ((j, point) # rest) s =
     coordinates_points_loop repr i rest
       (if \<bar>latitude point\<bar> > 85
        then append_issue (msg_extreme_latitude repr i j (latitude point)) s else s)"

text \<open>The body of \<open>for i, segment in enumerate(route.segments)\<close>.\<close>

fun coordinates_loop :: "(real \<Rightarrow> string) \<Rightarrow> (nat \<times> Segment) list \<Rightarrow> vstate \<Rightarrow> vstate" where
  "coordinates_loop repr [] s = s"
| "coordinates_loop repr ((i, segment) # rest) s =
     coordinates_loop repr rest
       (coordinates_points_loop repr i (enumerate 0 (points segment)) s)"

definition validate_coordinates :: "(real \<Rightarrow> string) \<Rightarrow> Route \<Rightarrow> error + vstate" where
  "validate_coordinates repr r =
     (let s = init_state r in
      Inr (coordinates_loop repr (enumerate 0 (segments (route s))) s))"

subsection \<open>\<open>validate_timestamps\<close> (main.py, lines 629-671)\<close>

definition msg_inconsistent :: "nat \<Rightarrow> string" where
  "msg_inconsistent i =
     ''Segment '' @ str_nat (i + 1) @ '' has inconsistent timestamps ''
       @ ''(some points missing timestamp data)''"

definition msg_out_of_order :: "nat \<Rightarrow> string" where
  "msg_out_of_order i = ''Segment '' @ str_nat (i + 1) @ '' has out-of-order timestamps''"

definition msg_duplicate :: "nat \<Rightarrow> string" where
  "msg_duplicate i = ''Segment '' @ str_nat (i + 1) @ '' has duplicate timestamps''"

text \<open>\<open>curr and prev and curr < prev\<close>: the comparison is evaluated only when both
  timestamps are present.\<close>

fun earlier :: "int option \<Rightarrow> int option \<Rightarrow> bool" where
  "earlier (Some c) (Some p) = (c < p)"
| "earlier _ _ = False"

text \<open>The loop \<open>for j in range(1, len(segment.points))\<close> that computes
  \<open>timestamp_issues\<close>: it reads \<open>segment.points[j]\<close> and \<open>segment.points[j-1]\<close> and
  leaves at the first pair that is out of order (\<open>break\<close>). The second argument is
  what is left of the range.\<close>

fun order_loop :: "GeoPoint list \<Rightarrow> nat list \<Rightarrow> error + bool" where
  "order_loop pts [] = Inr False"
| "order_loop pts (j # js) =
     (case getitem pts (int j) of
        Inl e \<Rightarrow> Inl e
      | Inr pj \<Rightarrow>
          (case getitem pts (int j - 1) of
             Inl e \<Rightarrow> Inl e
           | Inr pj1 \<Rightarrow>
               (let curr = timestamp pj; prev = timestamp pj1
                in if earlier curr prev then Inr True else order_loop pts js)))"

text \<open>The body of \<open>for i, segment in enumerate(route.segments)\<close>.\<close>

fun timestamps_loop :: "(nat \<times> Segment) list \<Rightarrow> vstate \<Rightarrow> error + vstate" where
  "timestamps_loop [] s = Inr s"
| "timestamps_loop ((i, segment) # rest) s =
     (let has_timestamps = list_ex (\<lambda>p. truthy (timestamp p)) (points segment)
      in if \<not> has_timestamps then timestamps_loop rest s
         else
           let missing_timestamps = list_ex (\<lambda>p. timestamp p = None) (points segment);
               s1 = (if missing_timestamps then append_issue (msg_inconsistent i) s else s)
           in case order_loop (points segment) [1 ..< length (points segment)] of
                Inl e \<Rightarrow> Inl e
              | Inr timestamp_issues \<Rightarrow>
                  (let s2 = (if timestamp_issues
                             then append_issue (msg_out_of_order i) s1 else s1);
                       timestamps = List.map_filter timestamp (points segment);
                       unique_timestamps = set timestamps;
                       s3 = (if card unique_timestamps < length timestamps
                             then append_issue (msg_duplicate i) s2 else s2)
                   in timestamps_loop rest s3))"

definition validate_timestamps :: "Route \<Rightarrow> error + vstate" where
  "validate_timestamps r =
     (let s = init_state r in timestamps_loop (enumerate 0 (segments (route s))) s)"

subsection \<open>\<open>format_duration\<close> (main.py, lines 736-755)\<close>

text \<open>A \<open>timedelta\<close> with its three normalised attributes; it is false in a boolean
  context exactly when it is \<open>timedelta(0)\<close>.\<close>

record timedelta =
  days :: int
  seconds :: int
  microseconds :: int

definition truthy_timedelta :: "timedelta \<Rightarrow> bool" where
  "truthy_timedelta d = (days d \<noteq> 0 \<or> seconds d \<noteq> 0 \<or> microseconds d \<noteq> 0)"

text \<open>\<open>sep.join(parts)\<close>\<close>

fun join :: "string \<Rightarrow> string list \<Rightarrow> string" where
  "join sep [] = []"
| "join sep [x] = x"
| "join sep (x # y # ys) = x @ sep @ join sep (y # ys)"

text \<open>The f-string \<open>{n} unit{'s' if n != 1 else ''}\<close>.\<close>

definition plural :: "int \<Rightarrow> string \<Rightarrow> string" where
  "plural n unit = str_int n @ '' '' @ unit @ (if n \<noteq> 1 then ''s'' else [])"

text \<open>The argument is \<open>None\<close> or a \<open>timedelta\<close>; \<open>if not duration\<close> holds for \<open>None\<close>
  and for a false \<open>timedelta\<close>. The list \<open>parts\<close> grows by \<open>append\<close>.\<close>

definition format_duration :: "timedelta option \<Rightarrow> string" where
  "format_duration duration =
     (case duration of
        None \<Rightarrow> ''Unknown''
      | Some d \<Rightarrow>
          if \<not> truthy_timedelta d then ''Unknown''
          else
            let hours = seconds d div 3600; remainder = seconds d mod 3600;
                minutes = remainder div 60; secs = remainder mod 60;
                parts = [];
                parts = (if days d \<noteq> 0 then parts @ [plural (days d) ''day''] else parts);
                parts = (if hours \<noteq> 0 then parts @ [plural hours ''hour''] else parts);
                parts = (if minutes \<noteq> 0 then parts @ [plural minutes ''minute''] else parts);
                parts = (if secs \<noteq> 0 \<and> \<not> (days d \<noteq> 0 \<or> hours \<noteq> 0)
                         then parts @ [plural secs ''second''] else parts)
            in join '', '' parts)"

subsection \<open>\<open>validate_timestamps\<close> on \<open>datetime\<close> timestamps\<close>

text \<open>
  Modelled from the spec: the timestamp of a point. The spec says only that a point
  has an optional timestamp; its class is in \<open>route_to_art.models\<close>, not among the
  sources. Read as a Python \<open>datetime\<close>, a timestamp is offset-naive or offset-aware.
  Python evaluates \<open>a < b\<close> on two of them only when both are of one kind, and raises
  \<open>TypeError\<close> otherwise; two of different kinds are unequal; every \<open>datetime\<close> is true
  in a boolean context. \<open>Naive a\<close> is the naive \<open>datetime\<close> whose reading is \<open>a\<close>
  microseconds, \<open>Aware a\<close> the aware one of the instant \<open>a\<close>.
\<close>

datatype datetime = Naive int | Aware int

text \<open>\<open>a < b\<close>\<close>

fun less_datetime :: "datetime \<Rightarrow> datetime \<Rightarrow> error + bool" where
  "less_datetime (Naive a) (Naive b) = Inr (a < b)"
| "less_datetime (Aware a) (Aware b) = Inr (a < b)"
| "less_datetime (Naive a) (Aware b) = Inl TypeError"
| "less_datetime (Aware a) (Naive b) = Inl TypeError"

text \<open>The route whose timestamps are such \<open>datetime\<close>s, and the state of a call on it.\<close>

record DtPoint =
  dt_latitude :: real
  dt_longitude :: real
  dt_elevation :: "real option"
  dt_timestamp :: "datetime option"

record DtSegment =
  dt_points :: "DtPoint list"

record DtRoute =
  dt_name :: "string option"
  dt_segments :: "DtSegment list"

record dt_vstate =
  dt_route :: DtRoute
  dt_issues :: "string list"

definition dt_append_issue :: "string \<Rightarrow> dt_vstate \<Rightarrow> dt_vstate" where
  "dt_append_issue m s = s\<lparr>dt_issues := dt_issues s @ [m]\<rparr>"

definition dt_init_state :: "DtRoute \<Rightarrow> dt_vstate" where
  "dt_init_state r = \<lparr>dt_route = r, dt_issues = []\<rparr>"

fun dt_truthy :: "datetime option \<Rightarrow> bool" where
  "dt_truthy None = False"
| "dt_truthy (Some t) = True"

text \<open>\<open>curr and prev and curr < prev\<close>: the comparison is evaluated, and can raise, only
  when both timestamps are present.\<close>

fun dt_earlier :: "datetime option \<Rightarrow> datetime option \<Rightarrow> error + bool" where
  "dt_earlier (Some c) (Some p) = less_datetime c p"
| "dt_earlier _ _ = Inr False"

text \<open>Lines 655-660, as \<open>order_loop\<close> above.\<close>

fun dt_order_loop :: "DtPoint list \<Rightarrow> nat list \<Rightarrow> error + bool" where
  "dt_order_loop pts [] = Inr False"
| "dt_order_loop pts (j # js) =
     (case getitem pts (int j) of
        Inl e \<Rightarrow> Inl e
      | Inr pj \<Rightarrow>
          (case getitem pts (int j - 1) of
             Inl e \<Rightarrow> Inl e
           | Inr pj1 \<Rightarrow>
               (let curr = dt_timestamp pj; prev = dt_timestamp pj1
                in case dt_earlier curr prev of
                     Inl e \<Rightarrow> Inl e
                   | Inr is_less \<Rightarrow> if is_less then Inr True else dt_order_loop pts js)))"

text \<open>Lines 641-669, as \<open>timestamps_loop\<close> above.\<close>

fun dt_timestamps_loop :: "(nat \<times> DtSegment) list \<Rightarrow> dt_vstate \<Rightarrow> error + dt_vstate" where
  "dt_timestamps_loop [] s = Inr s"
| "dt_timestamps_loop ((i, segment) # rest) s =
     (let has_timestamps = list_ex (\<lambda>p. dt_truthy (dt_timestamp p)) (dt_points segment)
      in if \<not> has_timestamps then dt_timestamps_loop rest s
         else
           let missing_timestamps = list_ex (\<lambda>p. dt_timestamp p = None) (dt_points segment);
               s1 = (if missing_timestamps then dt_append_issue (msg_inconsistent i) s else s)
           in case dt_order_loop (dt_points segment) [1 ..< length (dt_points segment)] of
                Inl e \<Rightarrow> Inl e
              | Inr timestamp_issues \<Rightarrow>
                  (let s2 = (if timestamp_issues
                             then dt_append_issue (msg_out_of_order i) s1 else s1);
                       timestamps = List.map_filter dt_timestamp (dt_points segment);
                       unique_timestamps = set timestamps;
                       s3 = (if card unique_timestamps < length timestamps
                             then dt_append_issue (msg_duplicate i) s2 else s2)
                   in dt_timestamps_loop rest s3))"

definition dt_validate_timestamps :: "DtRoute \<Rightarrow> error + dt_vstate" where
  "dt_validate_timestamps r =
     (let s = dt_init_state r in dt_timestamps_loop (enumerate 0 (dt_segments (dt_route s))) s)"

subsection \<open>The \<open>convert\<close> command after parsing (main.py, lines 420-566 and 152-189)\<close>

text \<open>
  Once the route is parsed, the command renders, exports and prints a summary; it
  calls the visualizer, the exporter, the loggers and \<open>click\<close>. Modelled from the spec:
  the visualizer (\<open>route_to_art.visualizer\<close>) and the exporter
  (\<open>route_to_art.exporters\<close>) are not among the sources. A run is determined by which
  of their calls raise: \<open>collaborators\<close> gives, for each call, the exception it raises
  (an instance of \<open>Exception\<close>, with its class as far as the command tells classes
  apart, and its \<open>str\<close>) or that it returns. A visualizer call that returns adds its
  feature to the figure; one that raises is taken to add nothing (the command then
  reports that it continues without markers). The loggers and \<open>click\<close> return. The
  state of the run is what has been written (\<open>emitted\<close>), what the figure holds
  (\<open>figure\<close>) and what an export call that returned was given (\<open>exported\<close>).
\<close>

datatype exception_class =
  ExportError | RenderingError | NameError | AttributeError | OtherException

datatype py_exception = PyException (exception_class: exception_class) (message: string)

datatype feature = Route_line | Distance_markers | Info_overlay

datatype event =
    Log_info string
  | Log_debug string
  | Log_warning string
  | Log_error string
  | Echo string
  | Secho string string

text \<open>The truth values of \<open>options.get("markers")\<close> and \<open>options.get("overlay")\<close>, the
  options in effect.\<close>

record render_options =
  opt_markers :: bool
  opt_overlay :: bool

text \<open>
  The parameters of the command that the code reads after rendering. \<open>format_list\<close> is
  \<open>None\<close> when \<open>formats\<close> is false (no \<open>--format\<close>), otherwise the stripped parts of its
  value. \<open>color\<close>, \<open>thickness\<close> and \<open>style\<close> are \<open>None\<close> when the option is not given.
  \<open>markers\<close> and \<open>overlay\<close> are the truth values of the parameters of these names.
  \<open>marker_info\<close> and \<open>overlay_info\<close> are the joined lists of lines 541-550 and 556-564,
  built by f-strings.
\<close>

record cli_parameters =
  format_list :: "string list option"
  color :: "string option"
  thickness :: "string option"
  style :: "string option"
  markers :: bool
  marker_info :: string
  overlay :: bool
  overlay_info :: string

text \<open>\<open>create_figure_raises\<close> stands for \<open>RouteVisualizer(route)\<close> followed by
  \<open>create_figure()\<close>; \<open>add_overlay_raises\<close> for the body of the overlay \<open>try\<close>
  (splitting the field list and \<open>add_overlay\<close>). \<open>get_format_result\<close> is the exception
  \<open>get_format\<close> raises, or the upper-cased name of the format it returns.\<close>

record collaborators =
  create_figure_raises :: "py_exception option"
  render_route_raises :: "py_exception option"
  add_distance_markers_raises :: "py_exception option"
  add_overlay_raises :: "py_exception option"
  export_multiple_raises :: "py_exception option"
  get_format_result :: "py_exception + string"

record cstate =
  emitted :: "event list"
  figure :: "feature list"
  exported :: "(string list \<times> feature list) list"

text \<open>How the body of \<open>convert\<close> ends when it does not return: an exception leaves it,
  or \<open>sys.exit\<close> is called.\<close>

datatype abort = Raised py_exception | Sys_exit nat

datatype command_result = Returns_None | Returns_1 | Exits nat

definition emit :: "event \<Rightarrow> cstate \<Rightarrow> cstate" where
  "emit e s = s\<lparr>emitted := emitted s @ [e]\<rparr>"

definition draw :: "feature \<Rightarrow> cstate \<Rightarrow> cstate" where
  "draw f s = s\<lparr>figure := figure s @ [f]\<rparr>"

text \<open>Lines 441-456: the inner \<open>try\<close> around \<open>add_distance_markers\<close> and its handler
  \<open>except Exception as e\<close>.\<close>

definition markers_block :: "collaborators \<Rightarrow> cstate \<Rightarrow> cstate" where
  "markers_block c s =
     (let s1 = emit (Log_info ''Adding distance markers'') s in
      case add_distance_markers_raises c of
        None \<Rightarrow> draw Distance_markers s1
      | Some e \<Rightarrow>
          emit (Echo ''Continuing without markers...'')
            (emit (Secho (''Error adding markers: '' @ message e) ''yellow'')
               (emit (Log_warning (''Error adding markers: '' @ message e)) s1)))"

text \<open>Lines 458-471: the inner \<open>try\<close> around the overlay and its handler.\<close>

definition overlay_block :: "collaborators \<Rightarrow> cstate \<Rightarrow> cstate" where
  "overlay_block c s =
     (let s1 = emit (Log_info ''Adding information overlay'') s in
      case add_overlay_raises c of
        None \<Rightarrow> draw Info_overlay s1
      | Some e \<Rightarrow> emit (Log_warning (''Failed to add overlay: '' @ message e)) s1)"

text \<open>Lines 472-474: the outer handler logs and raises \<open>RenderingError\<close>.\<close>

definition rendering_failed :: "py_exception \<Rightarrow> cstate \<Rightarrow> (abort \<times> cstate) + cstate" where
  "rendering_failed e s =
     Inl (Raised (PyException RenderingError (''Failed to render route: '' @ message e)),
          emit (Log_error (''Error rendering route: '' @ message e)) s)"

text \<open>Lines 420-474. \<open>Inr s\<close>: the outer \<open>try\<close> statement ends normally and control
  reaches line 476.\<close>

definition convert_render :: "render_options \<Rightarrow> collaborators \<Rightarrow> (abort \<times> cstate) + cstate" where
  "convert_render opts c =
     (let s0 = emit (Log_info ''Creating visualization'')
                 (emit (Echo ''Rendering route...'')
                    \<lparr>emitted = [], figure = [], exported = []\<rparr>)
      in case create_figure_raises c of
           Some e \<Rightarrow> rendering_failed e s0
         | None \<Rightarrow>
             (let s1 = emit (Log_debug ''Rendering route'') s0
              in case render_route_raises c of
                   Some e \<Rightarrow> rendering_failed e s1
                 | None \<Rightarrow>
                     (let s2 = draw Route_line s1;
                          s3 = (if opt_markers opts then markers_block c s2 else s2);
                          s4 = (if opt_overlay opts then overlay_block c s3 else s3)
                      in Inr s4)))"

text \<open>A text between single quotes, as Python prints a name in a message.\<close>

definition quoted :: "string \<Rightarrow> string" where
  "quoted x = CHR 0x27 # x @ [CHR 0x27]"

text \<open>An exception inside one of the two export \<open>try\<close> statements: the handler
  \<open>except ExportError as e\<close> prints and calls \<open>sys.exit(1)\<close>; any other exception
  leaves \<open>convert\<close>.\<close>

definition export_failed :: "py_exception \<Rightarrow> cstate \<Rightarrow> (abort \<times> cstate) + cstate" where
  "export_failed e s =
     (if exception_class e = ExportError
      then Inl (Sys_exit 1, emit (Secho (''Error: '' @ message e) ''red'') s)
      else Inl (Raised e, s))"

text \<open>
  Lines 476-525. With \<open>--format\<close> the figure goes to \<open>export_multiple\<close>. Without it,
  \<open>get_format\<close> is called and the format announced; the next line (503) evaluates
  the name \<open>ExportFormat\<close>, which \<open>main.py\<close> neither imports nor defines, so that
  Python raises \<open>NameError\<close> there and none of the three export calls is reached.
\<close>

definition convert_export ::
  "cli_parameters \<Rightarrow> collaborators \<Rightarrow> cstate \<Rightarrow> (abort \<times> cstate) + cstate" where
  "convert_export cli c s =
     (case format_list cli of
        Some fl \<Rightarrow>
          (let s1 = emit (Echo (''Exporting to '' @ join '', '' fl @ '' formats...'')) s
           in case export_multiple_raises c of
                None \<Rightarrow> Inr (s1\<lparr>exported := exported s1 @ [(fl, figure s1)]\<rparr>)
              | Some e \<Rightarrow> export_failed e s1)
      | None \<Rightarrow>
          (case get_format_result c of
             Inl e \<Rightarrow> export_failed e s
           | Inr format_name \<Rightarrow>
               export_failed
                 (PyException NameError
                    (''name '' @ quoted ''ExportFormat'' @ '' is not defined''))
                 (emit (Echo (''Exporting '' @ format_name @ ''...'')) s)))"

text \<open>\<open>f"{v}"\<close> for an optional string.\<close>

definition str_opt :: "string option \<Rightarrow> string" where
  "str_opt v = (case v of None \<Rightarrow> ''None'' | Some x \<Rightarrow> x)"

text \<open>Lines 528-566. \<open>color.startswith('#')\<close> raises \<open>AttributeError\<close> when \<open>color\<close> is
  \<open>None\<close>; both branches of that test add the same text.\<close>

definition convert_summary :: "cli_parameters \<Rightarrow> cstate \<Rightarrow> (abort \<times> cstate) + cstate" where
  "convert_summary cli s =
     (case color cli of
        None \<Rightarrow>
          Inl (Raised (PyException AttributeError
                 (quoted ''NoneType'' @ '' object has no attribute '' @ quoted ''startswith'')),
               s)
      | Some col \<Rightarrow>
          (let style_info = [''Color: '' @ col, ''Thickness: '' @ str_opt (thickness cli),
                             ''Style: '' @ str_opt (style cli)];
               s1 = emit (Echo (''Style: '' @ join '', '' style_info)) s;
               s2 = (if markers cli
                     then emit (Echo (''Markers: '' @ marker_info cli)) s1 else s1);
               s3 = (if overlay cli
                     then emit (Echo (''Overlay: '' @ overlay_info cli)) s2 else s2)
           in Inr s3))"

definition convert_body ::
  "cli_parameters \<Rightarrow> render_options \<Rightarrow> collaborators \<Rightarrow> (abort \<times> cstate) + cstate" where
  "convert_body cli opts c =
     (case convert_render opts c of
        Inl a \<Rightarrow> Inl a
      | Inr s \<Rightarrow>
          (case convert_export cli c s of
             Inl a \<Rightarrow> Inl a
           | Inr s' \<Rightarrow> convert_summary cli s'))"

text \<open>
  The command under its decorator \<open>handle_command_errors\<close> (lines 152-189): when the
  body returns, the command returns \<open>None\<close>; each of the four handlers returns 1 for
  the exception it catches, and together they catch every \<open>Exception\<close> (what they log
  and print is not modelled); \<open>sys.exit\<close> raises \<open>SystemExit\<close>, which none of them
  catches.
\<close>

definition convert ::
  "cli_parameters \<Rightarrow> render_options \<Rightarrow> collaborators \<Rightarrow> command_result \<times> cstate" where
  "convert cli opts c =
     (case convert_body cli opts c of
        Inr s \<Rightarrow> (Returns_None, s)
      | Inl (Raised e, s) \<Rightarrow> (Returns_1, s)
      | Inl (Sys_exit n, s) \<Rightarrow> (Exits n, s))"

section \<open>Operations of the route model\<close>

text \<open>
  Modelled from the spec: \<open>Route.get_total_duration\<close> (module \<open>route_to_art.models\<close>,
  called by the \<open>info\<close> command). The spec: if every point across all segments carries
  a timestamp, the result is the maximum timestamp minus the minimum; if any point
  lacks a timestamp, the result is unknown. For a route without points, where there
  is no maximum, the result is taken as unknown. The difference of two \<open>datetime\<close>s is
  a normalised \<open>timedelta\<close>.
\<close>

definition timedelta_of :: "int \<Rightarrow> timedelta" where
  "timedelta_of us =
     \<lparr>days = us div 86400000000,
      seconds = (us mod 86400000000) div 1000000,
      microseconds = us mod 1000000\<rparr>"

definition all_points :: "Route \<Rightarrow> GeoPoint list" where
  "all_points r = concat (map points (segments r))"

definition total_duration :: "Route \<Rightarrow> timedelta option" where
  "total_duration r =
     (let ps = all_points r in
      if ps = [] \<or> list_ex (\<lambda>p. timestamp p = None) ps then None
      else let ts = List.map_filter timestamp ps
           in Some (timedelta_of (Max (set ts) - Min (set ts))))"

text \<open>
  Modelled from the spec: \<open>distance\<close> of the distance engine (module
  \<open>route_to_art.models\<close>). The spec: the great-circle distance by the haversine
  formula on a spherical Earth of mean radius 6,371,000 m, between two points that
  are in range. The formula is taken over the reals; the rounding of double
  arithmetic is not modelled.
\<close>

definition valid_point :: "GeoPoint \<Rightarrow> bool" where
  "valid_point p =
     (- 90 \<le> latitude p \<and> latitude p \<le> 90 \<and> - 180 \<le> longitude p \<and> longitude p \<le> 180)"

definition radians :: "real \<Rightarrow> real" where
  "radians deg = deg * pi / 180"

definition earth_radius :: real where
  "earth_radius = 6371000"

definition haversine :: "real \<Rightarrow> real" where
  "haversine x = (sin (x / 2))\<^sup>2"

definition distance :: "GeoPoint \<Rightarrow> GeoPoint \<Rightarrow> real" where
  "distance a b =
     (let phi1 = radians (latitude a); phi2 = radians (latitude b);
          dphi = radians (latitude b - latitude a);
          dlambda = radians (longitude b - longitude a);
          h = haversine dphi + cos phi1 * cos phi2 * haversine dlambda
      in 2 * earth_radius * arcsin (sqrt h))"

section \<open>Vocabulary of the properties\<close>

text \<open>
  The conditions the validators are meant to detect, stated on the data and not on
  the loops, and the findings of one segment. The theorems below relate the loops
  to them.
\<close>

subsection \<open>Structure\<close>

text \<open>What the loop of \<open>validate_segments\<close> adds for segment \<open>i\<close>.\<close>

definition segment_findings :: "nat \<Rightarrow> Segment \<Rightarrow> string list" where
  "segment_findings i segment =
     (if points segment = [] then [msg_no_points i]
      else (if length (points segment) < 2 then [msg_one_point i] else [])
         @ (if length (points segment) > 10000
            then [msg_many_points i (length (points segment))] else []))"

subsection \<open>Coordinates\<close>

text \<open>The points of a route in segment-then-point order, each with the index of its
  segment, its index in the segment and its latitude.\<close>

definition indexed_latitudes :: "Route \<Rightarrow> (nat \<times> nat \<times> real) list" where
  "indexed_latitudes r =
     concat (map (\<lambda>(i, segment). map (\<lambda>(j, point). (i, j, latitude point))
                                       (enumerate 0 (points segment)))
                 (enumerate 0 (segments r)))"

definition extreme :: "real \<Rightarrow> bool" where
  "extreme lat = (\<bar>lat\<bar> > 85)"

subsection \<open>Timestamps\<close>

text \<open>
  A segment has timestamps when some point carries one. Presence is inconsistent when
  some points carry a timestamp and some do not. A segment is out of order when, for
  two consecutive points that both carry a timestamp, the later point's timestamp is
  strictly less than the earlier point's. It has duplicate timestamps when the
  timestamps present are not pairwise distinct.
\<close>

definition has_timestamps :: "Segment \<Rightarrow> bool" where
  "has_timestamps segment = list_ex (\<lambda>p. timestamp p \<noteq> None) (points segment)"

definition inconsistent_presence :: "Segment \<Rightarrow> bool" where
  "inconsistent_presence segment =
     (list_ex (\<lambda>p. timestamp p \<noteq> None) (points segment) \<and>
      list_ex (\<lambda>p. timestamp p = None) (points segment))"

definition later_is_less :: "GeoPoint \<times> GeoPoint \<Rightarrow> bool" where
  "later_is_less pq =
     (case (timestamp (fst pq), timestamp (snd pq)) of
        (Some a, Some b) \<Rightarrow> b < a
      | _ \<Rightarrow> False)"

definition out_of_order :: "Segment \<Rightarrow> bool" where
  "out_of_order segment = list_ex later_is_less (zip (points segment) (tl (points segment)))"

definition present_timestamps :: "Segment \<Rightarrow> int list" where
  "present_timestamps segment = List.map_filter timestamp (points segment)"

definition duplicate_timestamps :: "Segment \<Rightarrow> bool" where
  "duplicate_timestamps segment = (\<not> distinct (present_timestamps segment))"

text \<open>What the loop of \<open>validate_timestamps\<close> adds for segment \<open>i\<close>.\<close>

definition timestamp_findings :: "nat \<Rightarrow> Segment \<Rightarrow> string list" where
  "timestamp_findings i segment =
     (if has_timestamps segment
      then (if inconsistent_presence segment then [msg_inconsistent i] else [])
         @ (if out_of_order segment then [msg_out_of_order i] else [])
         @ (if duplicate_timestamps segment then [msg_duplicate i] else [])
      else [])"

subsection \<open>A fully valid route\<close>

text \<open>Within a segment, timestamps are absent everywhere, or present on every point,
  strictly increasing and distinct.\<close>

definition timestamps_consistent :: "Segment \<Rightarrow> bool" where
  "timestamps_consistent segment =
     (list_all (\<lambda>p. timestamp p = None) (points segment) \<or>
      (list_all (\<lambda>p. timestamp p \<noteq> None) (points segment) \<and>
       sorted_wrt (<) (present_timestamps segment) \<and>
       distinct (present_timestamps segment)))"

definition valid_segment :: "Segment \<Rightarrow> bool" where
  "valid_segment segment =
     (2 \<le> length (points segment) \<and> length (points segment) \<le> 10000 \<and>
      list_all (\<lambda>p. \<bar>latitude p\<bar> \<le> 85) (points segment) \<and>
      timestamps_consistent segment)"

definition fully_valid :: "Route \<Rightarrow> bool" where
  "fully_valid r = (segments r \<noteq> [] \<and> list_all valid_segment (segments r))"

subsection \<open>Routes with \<open>datetime\<close> timestamps\<close>

text \<open>
  Two consecutive points are comparable when they do not both carry a timestamp, or
  carry timestamps of one kind; a segment and a route are comparable when all their
  consecutive points are.
\<close>

fun same_kind :: "datetime \<Rightarrow> datetime \<Rightarrow> bool" where
  "same_kind (Naive a) (Naive b) = True"
| "same_kind (Aware a) (Aware b) = True"
| "same_kind _ _ = False"




text \<open>All timestamps of a segment are of one kind.\<close>

definition same_kind_segment :: "DtSegment \<Rightarrow> bool" where
  "same_kind_segment segment =
     (let ts = List.map_filter dt_timestamp (dt_points segment)
      in list_all (\<lambda>t. list_all (same_kind t) ts) ts)"

text \<open>
  The same route with every timestamp replaced by its position on the time line: the
  route of the data model above. \<open>validate_segments\<close> and \<open>validate_coordinates\<close> read
  no timestamp, so this is all they see of a route.
\<close>

fun instant :: "datetime \<Rightarrow> int" where
  "instant (Naive a) = a"
| "instant (Aware a) = a"

definition erase_point :: "DtPoint \<Rightarrow> GeoPoint" where
  "erase_point p = \<lparr>latitude = dt_latitude p, longitude = dt_longitude p,
                     elevation = dt_elevation p,
                     timestamp = map_option instant (dt_timestamp p)\<rparr>"

definition erase_segment :: "DtSegment \<Rightarrow> Segment" where
  "erase_segment segment = \<lparr>points = map erase_point (dt_points segment)\<rparr>"

definition on_time_line :: "DtRoute \<Rightarrow> Route" where
  "on_time_line r = \<lparr>name = dt_name r, segments = map erase_segment (dt_segments r)\<rparr>"

subsection \<open>Sample data\<close>

definition pt :: "real \<Rightarrow> int option \<Rightarrow> GeoPoint" where
  "pt lat ts = \<lparr>latitude = lat, longitude = 0, elevation = None, timestamp = ts\<rparr>"

definition seg :: "GeoPoint list \<Rightarrow> Segment" where
  "seg ps = \<lparr>points = ps\<rparr>"

definition rt :: "Segment list \<Rightarrow> Route" where
  "rt ss = \<lparr>name = None, segments = ss\<rparr>"

text \<open>The textual form of the latitudes that the sample routes report.\<close>

definition repr_sample :: "real \<Rightarrow> string" where
  "repr_sample lat = (if lat = 86 then ''86.0'' else if lat = - 90 then ''-90.0'' else ''0.0'')"



section \<open>Properties\<close>

subsection \<open>State and primitives\<close>

lemma route_append_issue [simp]: "route (append_issue m s) = route s"
  by (simp add: append_issue_def)

lemma issues_append_issue [simp]: "issues (append_issue m s) = issues s @ [m]"
  by (simp add: append_issue_def)

lemma route_init_state [simp]: "route (init_state r) = r"
  by (simp add: init_state_def)

lemma issues_init_state [simp]: "issues (init_state r) = []"
  by (simp add: init_state_def)

lemma str_nat_1: "str_nat (Suc 0) = ''1''"
  by (simp add: str_nat.simps digit_def)

lemma str_nat_2: "str_nat (Suc (Suc 0)) = ''2''"
  by (simp add: str_nat.simps digit_def)

subsection \<open>The loops, in closed form\<close>

lemma segments_loop_eq:
  "segments_loop es s =
     s\<lparr>issues := issues s @ concat (map (\<lambda>(i, segment). segment_findings i segment) es)\<rparr>"
  by (induction es s rule: segments_loop.induct)
     (simp_all add: segment_findings_def append_issue_def Let_def)

lemma in_set_enumerate_nth:
  "i < length xs \<Longrightarrow> (i, xs ! i) \<in> set (enumerate 0 xs)"
  by (simp add: in_set_enumerate_eq)

lemma finding_in_concat:
  "i < length xs \<Longrightarrow> m \<in> set (f i (xs ! i)) \<Longrightarrow>
     m \<in> set (concat (map (\<lambda>(i, x). f i x) (enumerate 0 xs)))"
  using in_set_enumerate_nth [of i xs] by force

lemma concat_findings_empty:
  "(\<And>i x. (i, x) \<in> set es \<Longrightarrow> f i x = []) \<Longrightarrow> concat (map (\<lambda>(i, x). f i x) es) = []"
  by (induction es) auto

lemma coordinates_points_loop_eq:
  "coordinates_points_loop repr i ps s =
     s\<lparr>issues := issues s @
        map (\<lambda>(i, j, lat). msg_extreme_latitude repr i j lat)
          (filter (\<lambda>(i, j, lat). extreme lat) (map (\<lambda>(j, point). (i, j, latitude point)) ps))\<rparr>"
  by (induction repr i ps s rule: coordinates_points_loop.induct)
     (simp_all add: append_issue_def extreme_def)

lemma coordinates_loop_eq:
  "coordinates_loop repr es s =
     s\<lparr>issues := issues s @
        map (\<lambda>(i, j, lat). msg_extreme_latitude repr i j lat)
          (filter (\<lambda>(i, j, lat). extreme lat)
             (concat (map (\<lambda>(i, segment). map (\<lambda>(j, point). (i, j, latitude point))
                                       (enumerate 0 (points segment))) es)))\<rparr>"
  by (induction repr es s rule: coordinates_loop.induct)
     (simp_all add: coordinates_points_loop_eq)

lemma length_filter_indexed_points:
  "length (filter ((\<lambda>(i, j, lat). P lat) \<circ> (\<lambda>(j, point). (i, j, latitude point))) (enumerate k ps))
     = length (filter (\<lambda>p. P (latitude p)) ps)"
  by (induction ps arbitrary: k) auto

lemma length_filter_indexed_segments:
  "length (filter (\<lambda>(i, j, lat). P lat)
     (concat (map (\<lambda>(i, segment). map (\<lambda>(j, point). (i, j, latitude point))
                                       (enumerate 0 (points segment))) (enumerate k ss))))
     = length (filter (\<lambda>p. P (latitude p)) (concat (map points ss)))"
  by (induction ss arbitrary: k) (auto simp: length_filter_indexed_points)

lemma length_filter_indexed_latitudes:
  "length (filter (\<lambda>(i, j, lat). P lat) (indexed_latitudes r))
     = length (filter (\<lambda>p. P (latitude p)) (all_points r))"
  by (simp add: indexed_latitudes_def all_points_def length_filter_indexed_segments)

lemma truthy_iff [simp]: "truthy t \<longleftrightarrow> t \<noteq> None"
  by (cases t) simp_all

lemma earlier_iff: "earlier c p \<longleftrightarrow> (\<exists>a b. p = Some a \<and> c = Some b \<and> b < a)"
  by (cases c; cases p) auto

lemma later_is_less_iff: "later_is_less (p, q) \<longleftrightarrow> earlier (timestamp q) (timestamp p)"
  by (auto simp: later_is_less_def earlier_iff split: option.splits)

lemma getitem_in_range: "j < length xs \<Longrightarrow> getitem xs (int j) = Inr (xs ! j)"
  by (simp add: getitem_def)

lemma getitem_pred_in_range:
  "0 < j \<Longrightarrow> j < length xs \<Longrightarrow> getitem xs (int j - 1) = Inr (xs ! (j - 1))"
  using getitem_in_range [of "j - 1" xs] by simp

lemma order_loop_eq:
  "\<forall>j \<in> set js. 0 < j \<and> j < length pts \<Longrightarrow>
     order_loop pts js =
       Inr (\<exists>j \<in> set js. earlier (timestamp (pts ! j)) (timestamp (pts ! (j - 1))))"
  by (induction js) (simp_all add: getitem_in_range getitem_pred_in_range)

lemma adjacent_pairs_iff:
  "(\<exists>j \<in> set [Suc 0 ..< length pts]. P (pts ! (j - Suc 0)) (pts ! j))
     \<longleftrightarrow> list_ex (\<lambda>(p, q). P p q) (zip pts (tl pts))"
proof
  assume "\<exists>j \<in> set [Suc 0 ..< length pts]. P (pts ! (j - Suc 0)) (pts ! j)"
  then obtain j where j: "Suc 0 \<le> j" "j < length pts" "P (pts ! (j - Suc 0)) (pts ! j)"
    by auto
  then have "(pts ! (j - Suc 0), tl pts ! (j - Suc 0)) \<in> set (zip pts (tl pts))"
    by (auto simp: in_set_zip intro!: exI [of _ "j - Suc 0"])
  moreover have "tl pts ! (j - Suc 0) = pts ! j" using j by (simp add: nth_tl)
  ultimately show "list_ex (\<lambda>(p, q). P p q) (zip pts (tl pts))"
    using j by (force simp: list_ex_iff)
next
  assume "list_ex (\<lambda>(p, q). P p q) (zip pts (tl pts))"
  then obtain p q where "(p, q) \<in> set (zip pts (tl pts))" "P p q"
    by (auto simp: list_ex_iff)
  then obtain k where k: "k < length pts" "k < length (tl pts)" "pts ! k = p" "tl pts ! k = q"
    by (auto simp: in_set_zip)
  then have "Suc k < length pts" "pts ! Suc k = q" by (auto simp: nth_tl)
  with k \<open>P p q\<close> show "\<exists>j \<in> set [Suc 0 ..< length pts]. P (pts ! (j - Suc 0)) (pts ! j)"
    by (intro bexI [of _ "Suc k"]) auto
qed

lemma order_loop_out_of_order:
  "order_loop (points segment) [Suc 0 ..< length (points segment)] = Inr (out_of_order segment)"
proof -
  have "order_loop (points segment) [Suc 0 ..< length (points segment)] =
          Inr (\<exists>j \<in> set [Suc 0 ..< length (points segment)].
                 earlier (timestamp (points segment ! j)) (timestamp (points segment ! (j - 1))))"
    by (rule order_loop_eq) simp
  also have "(\<exists>j \<in> set [Suc 0 ..< length (points segment)].
                 earlier (timestamp (points segment ! j)) (timestamp (points segment ! (j - 1))))
             \<longleftrightarrow> out_of_order segment"
    using adjacent_pairs_iff [of "points segment" "\<lambda>p q. earlier (timestamp q) (timestamp p)"]
    by (simp add: out_of_order_def later_is_less_iff [symmetric] case_prod_unfold)
  finally show ?thesis .
qed

lemma card_less_length_iff: "card (set xs) < length xs \<longleftrightarrow> \<not> distinct xs"
  using card_distinct [of xs] distinct_card [of xs] card_length [of xs] by fastforce

lemma timestamps_loop_step:
  "timestamps_loop ((i, segment) # rest) s =
     timestamps_loop rest (s\<lparr>issues := issues s @ timestamp_findings i segment\<rparr>)"
proof (cases "has_timestamps segment")
  case False
  then show ?thesis
    by (simp add: has_timestamps_def timestamp_findings_def)
next
  case True
  then show ?thesis
    by (simp add: has_timestamps_def timestamp_findings_def inconsistent_presence_def
          order_loop_out_of_order card_less_length_iff duplicate_timestamps_def
          present_timestamps_def append_issue_def Let_def)
qed

lemma timestamps_loop_eq:
  "timestamps_loop es s =
     Inr (s\<lparr>issues := issues s @ concat (map (\<lambda>(i, segment). timestamp_findings i segment) es)\<rparr>)"
proof (induction es arbitrary: s)
  case Nil
  then show ?case by simp
next
  case (Cons e es)
  obtain i segment where e: "e = (i, segment)" by (cases e)
  show ?case
    unfolding e timestamps_loop_step by (simp add: Cons.IH)
qed





lemma not_sorted_if_out_of_order:
  "list_ex later_is_less (zip pts (tl pts)) \<Longrightarrow> \<not> sorted (List.map_filter timestamp pts)"
proof (induction pts rule: induct_list012)
  case (3 x y zs)
  show ?case
  proof (cases "later_is_less (x, y)")
    case True
    then show ?thesis
      by (auto simp: later_is_less_def split: option.splits)
  next
    case False
    with 3 have "\<not> sorted (List.map_filter timestamp (y # zs))" by simp
    then show ?thesis
      by (cases "timestamp x") auto
  qed
qed simp_all



lemma validate_timestamps_eq:
  "validate_timestamps r =
     Inr \<lparr>route = r,
          issues = concat (map (\<lambda>(i, segment). timestamp_findings i segment)
                             (enumerate 0 (segments r)))\<rparr>"
  by (simp add: validate_timestamps_def timestamps_loop_eq init_state_def)

lemma validate_segments_eq:
  "validate_segments r =
     Inr \<lparr>route = r,
          issues = (if segments r = [] then [msg_no_segments]
                    else concat (map (\<lambda>(i, segment). segment_findings i segment)
                                  (enumerate 0 (segments r))))\<rparr>"
  by (simp add: validate_segments_def segments_loop_eq init_state_def append_issue_def)

lemma validate_coordinates_eq:
  "validate_coordinates repr r =
     Inr \<lparr>route = r,
          issues = map (\<lambda>(i, j, lat). msg_extreme_latitude repr i j lat)
                     (filter (\<lambda>(i, j, lat). extreme lat) (indexed_latitudes r))\<rparr>"
  by (simp add: validate_coordinates_def coordinates_loop_eq init_state_def
        indexed_latitudes_def)

lemma timestamp_findings_valid:
  assumes "timestamps_consistent segment"
  shows "timestamp_findings i segment = []"
proof (cases "has_timestamps segment")
  case False
  then show ?thesis by (simp add: timestamp_findings_def)
next
  case True
  with assms have all: "list_all (\<lambda>p. timestamp p \<noteq> None) (points segment)"
    and inc: "sorted_wrt (<) (present_timestamps segment)"
    and dist: "distinct (present_timestamps segment)"
    by (auto simp: timestamps_consistent_def has_timestamps_def list_all_iff list_ex_iff)
  from all have "\<not> inconsistent_presence segment"
    by (auto simp: inconsistent_presence_def list_all_iff list_ex_iff)
  moreover from inc have "sorted (present_timestamps segment)"
    by (rule strict_sorted_imp_sorted)
  then have "\<not> out_of_order segment"
    using not_sorted_if_out_of_order [of "points segment"]
    by (auto simp: out_of_order_def present_timestamps_def)
  moreover from dist have "\<not> duplicate_timestamps segment"
    by (simp add: duplicate_timestamps_def)
  ultimately show ?thesis by (simp add: timestamp_findings_def)
qed



section \<open>The claims\<close>

subsection \<open>Timestamps\<close>



subsection \<open>Coordinates\<close>

text \<open>
  Claim C2. For every route, \<open>validate_coordinates\<close> returns exactly one finding per
  point whose latitude has absolute value strictly greater than 85, in
  segment-then-point order: the list is the image of the extreme points of
  \<open>indexed_latitudes\<close>, which lists the points in that order and carries no longitude.
  Its length is the number of such points, and it is empty when every latitude is
  within 85 degrees.
\<close>

theorem validate_coordinates_findings:
  "\<exists>s. validate_coordinates repr r = Inr s \<and>
     issues s = map (\<lambda>(i, j, lat). msg_extreme_latitude repr i j lat)
                  (filter (\<lambda>(i, j, lat). \<bar>lat\<bar> > 85) (indexed_latitudes r)) \<and>
     length (issues s) = length (filter (\<lambda>p. \<bar>latitude p\<bar> > 85) (all_points r)) \<and>
     (list_all (\<lambda>p. \<bar>latitude p\<bar> \<le> 85) (all_points r) \<longrightarrow> issues s = [])"
proof -
  let ?s = "coordinates_loop repr (enumerate 0 (segments r)) (init_state r)"
  have run: "validate_coordinates repr r = Inr ?s"
    by (simp add: validate_coordinates_def)
  have iss: "issues ?s = map (\<lambda>(i, j, lat). msg_extreme_latitude repr i j lat)
                  (filter (\<lambda>(i, j, lat). extreme lat) (indexed_latitudes r))"
    by (simp add: coordinates_loop_eq indexed_latitudes_def)
  have len: "length (issues ?s) = length (filter (\<lambda>p. extreme (latitude p)) (all_points r))"
    unfolding iss by (simp add: length_filter_indexed_latitudes)
  have none: "issues ?s = []" if "list_all (\<lambda>p. \<not> extreme (latitude p)) (all_points r)"
  proof -
    from that have "filter (\<lambda>p. extreme (latitude p)) (all_points r) = []"
      by (simp add: filter_empty_conv list_all_iff)
    with len show ?thesis by simp
  qed
  have ext: "extreme = (\<lambda>lat. \<bar>lat\<bar> > 85)" by (simp add: extreme_def fun_eq_iff)
  show ?thesis
    unfolding run using iss len none by (simp add: ext not_less)
qed

theorem validate_coordinates_findings_witness:
  "(\<exists>s. validate_coordinates repr_sample (rt [seg [pt 10 None, pt 86 None], seg [pt (- 90) None]])
          = Inr s \<and>
       issues s =
         [''Point 2 in segment 1 has extreme latitude (86.0) which may cause issues with map projections'',
          ''Point 1 in segment 2 has extreme latitude (-90.0) which may cause issues with map projections''] \<and>
       length (issues s) = 2) \<and>
   list_all (\<lambda>p. \<bar>latitude p\<bar> \<le> 85) (all_points (rt [seg [pt 85 None, pt (- 85) None]])) \<and>
   (\<exists>s. validate_coordinates repr_sample (rt [seg [pt 85 None, pt (- 85) None]]) = Inr s \<and>
       issues s = [])"
proof -
  have "\<exists>s. validate_coordinates repr_sample (rt [seg [pt 10 None, pt 86 None], seg [pt (- 90) None]])
          = Inr s \<and>
       issues s =
         [''Point 2 in segment 1 has extreme latitude (86.0) which may cause issues with map projections'',
          ''Point 1 in segment 2 has extreme latitude (-90.0) which may cause issues with map projections''] \<and>
       length (issues s) = 2"
    using validate_coordinates_findings
            [of repr_sample "rt [seg [pt 10 None, pt 86 None], seg [pt (- 90) None]]"]
    by (auto simp: indexed_latitudes_def all_points_def rt_def seg_def pt_def
          msg_extreme_latitude_def repr_sample_def str_nat.simps digit_def)
  moreover have within:
    "list_all (\<lambda>p. \<bar>latitude p\<bar> \<le> 85) (all_points (rt [seg [pt 85 None, pt (- 85) None]]))"
    by (simp add: all_points_def rt_def seg_def pt_def)
  moreover have "\<exists>s. validate_coordinates repr_sample (rt [seg [pt 85 None, pt (- 85) None]]) = Inr s \<and>
       issues s = []"
    using validate_coordinates_findings [of repr_sample "rt [seg [pt 85 None, pt (- 85) None]]"] within
    by blast
  ultimately show ?thesis by blast
qed

subsection \<open>Structure\<close>

text \<open>
  Claim C3. For every route, \<open>validate_segments\<close> returns a structural finding for
  a route with zero segments, for each segment with zero points, for each segment with
  fewer than two points (the empty-segment finding for none, the single-point finding
  for one), and for each segment with more than 10000 points; a route whose every
  segment has between 2 and 10000 points yields an empty list. The last clause speaks
  of a route that has segments: the route without any is the subject of the first
  clause, which gives it a finding.
\<close>

theorem validate_segments_findings:
  "\<exists>s. validate_segments r = Inr s \<and>
     (segments r = [] \<longrightarrow> msg_no_segments \<in> set (issues s)) \<and>
     (\<forall>i < length (segments r).
        let n = length (points (segments r ! i)) in
          (n = 0 \<longrightarrow> msg_no_points i \<in> set (issues s)) \<and>
          (n = 1 \<longrightarrow> msg_one_point i \<in> set (issues s)) \<and>
          (n < 2 \<longrightarrow> msg_no_points i \<in> set (issues s) \<or> msg_one_point i \<in> set (issues s)) \<and>
          (n > 10000 \<longrightarrow> msg_many_points i n \<in> set (issues s))) \<and>
     (segments r \<noteq> [] \<and> list_all (\<lambda>segment. 2 \<le> length (points segment)
          \<and> length (points segment) \<le> 10000) (segments r) \<longrightarrow> issues s = [])"
proof (cases "segments r = []")
  case True
  then show ?thesis by (simp add: validate_segments_def)
next
  case False
  let ?s = "segments_loop (enumerate 0 (segments r)) (init_state r)"
  have run: "validate_segments r = Inr ?s"
    using False by (simp add: validate_segments_def)
  have iss: "issues ?s = concat (map (\<lambda>(i, segment). segment_findings i segment)
                                     (enumerate 0 (segments r)))"
    by (simp add: segments_loop_eq)
  have per: "m \<in> set (issues ?s)"
    if "i < length (segments r)" "m \<in> set (segment_findings i (segments r ! i))" for i m
    unfolding iss using that by (rule finding_in_concat)
  have a: "msg_no_points i \<in> set (issues ?s)"
    if "i < length (segments r)" "length (points (segments r ! i)) = 0" for i
    by (rule per) (use that in \<open>auto simp: segment_findings_def\<close>)
  have b: "msg_one_point i \<in> set (issues ?s)"
    if "i < length (segments r)" "length (points (segments r ! i)) = 1" for i
    by (rule per) (use that in \<open>auto simp: segment_findings_def\<close>)
  have c: "msg_many_points i (length (points (segments r ! i))) \<in> set (issues ?s)"
    if "i < length (segments r)" "length (points (segments r ! i)) > 10000" for i
    by (rule per) (use that in \<open>auto simp: segment_findings_def\<close>)
  have d: "issues ?s = []"
    if "list_all (\<lambda>segment. 2 \<le> length (points segment)
          \<and> length (points segment) \<le> 10000) (segments r)"
    unfolding iss
  proof (rule concat_findings_empty)
    fix i x assume "(i, x) \<in> set (enumerate 0 (segments r))"
    then have "x \<in> set (segments r)" by (auto simp: in_set_enumerate_eq)
    with that have "2 \<le> length (points x)" "length (points x) \<le> 10000"
      by (auto simp: list_all_iff)
    then show "segment_findings i x = []" by (auto simp: segment_findings_def)
  qed
  have e: "n < 2 \<Longrightarrow> n = 0 \<or> n = 1" for n :: nat by arith
  show ?thesis
    unfolding run using False a b c d e by (auto simp: Let_def)
qed

theorem validate_segments_findings_witness:
  "\<exists>s. validate_segments (rt [seg [], seg [pt 0 None]]) = Inr s \<and>
       ''Segment 1 has no points'' \<in> set (issues s) \<and>
       ''Segment 2 has only one point - no route data'' \<in> set (issues s)"
proof -
  from validate_segments_findings [of "rt [seg [], seg [pt 0 None]]"]
  obtain s where s: "validate_segments (rt [seg [], seg [pt 0 None]]) = Inr s"
    and f: "\<forall>i < 2. let n = length (points ([seg [], seg [pt 0 None]] ! i)) in
              (n = 0 \<longrightarrow> msg_no_points i \<in> set (issues s)) \<and>
              (n = 1 \<longrightarrow> msg_one_point i \<in> set (issues s)) \<and>
              (n < 2 \<longrightarrow> msg_no_points i \<in> set (issues s) \<or> msg_one_point i \<in> set (issues s)) \<and>
              (n > 10000 \<longrightarrow> msg_many_points i n \<in> set (issues s))"
    by (auto simp: rt_def)
  from f [rule_format, of 0] have "msg_no_points 0 \<in> set (issues s)"
    by (simp add: seg_def)
  moreover from f [rule_format, of 1] have "msg_one_point 1 \<in> set (issues s)"
    by (simp add: seg_def)
  ultimately show ?thesis
    using s by (simp add: msg_no_points_def msg_one_point_def str_nat_1 str_nat_2)
qed

text \<open>
  Claim C9. For a route with zero segments, \<open>validate_segments\<close> returns exactly one
  finding, the empty-route finding; no per-segment finding is added.
\<close>

theorem validate_segments_empty_route:
  "segments r = [] \<Longrightarrow>
     \<exists>s. validate_segments r = Inr s \<and> issues s = [msg_no_segments] \<and> length (issues s) = 1"
  by (simp add: validate_segments_def)

theorem validate_segments_empty_route_witness:
  "segments (rt []) = [] \<and>
   (\<exists>s. validate_segments (rt []) = Inr s
        \<and> issues s = [''Route has no segments''] \<and> length (issues s) = 1)"
  using validate_segments_empty_route [of "rt []"]
  by (simp add: msg_no_segments_def rt_def)

subsection \<open>All three validators\<close>

text \<open>
  Claim C4. For every fully valid route (at least one segment, every segment with 2 to
  10000 points, all latitudes within 85 degrees, and in each segment timestamps absent
  everywhere or present on every point, strictly increasing and distinct), each of the
  three validators returns an empty list.
\<close>

theorem validators_empty_on_valid_route:
  assumes "fully_valid r"
  shows "(\<exists>s. validate_segments r = Inr s \<and> issues s = []) \<and>
         (\<exists>s. validate_coordinates repr r = Inr s \<and> issues s = []) \<and>
         (\<exists>s. validate_timestamps r = Inr s \<and> issues s = [])"
proof -
  from assms have ne: "segments r \<noteq> []"
    and valid: "\<And>segment. segment \<in> set (segments r) \<Longrightarrow> valid_segment segment"
    by (auto simp: fully_valid_def list_all_iff)
  have in_enum: "x \<in> set (segments r)" if "(i, x) \<in> set (enumerate 0 (segments r))" for i x
    using that by (auto simp: in_set_enumerate_eq)
  have "concat (map (\<lambda>(i, segment). segment_findings i segment)
                    (enumerate 0 (segments r))) = []"
  proof (rule concat_findings_empty)
    fix i x assume "(i, x) \<in> set (enumerate 0 (segments r))"
    then have "valid_segment x" by (intro valid in_enum)
    then show "segment_findings i x = []"
      by (auto simp: valid_segment_def segment_findings_def)
  qed
  with ne have 1: "\<exists>s. validate_segments r = Inr s \<and> issues s = []"
    by (simp add: validate_segments_eq)
  have "\<not> extreme (latitude p)" if "p \<in> set (all_points r)" for p
  proof -
    from that obtain segment where "segment \<in> set (segments r)" "p \<in> set (points segment)"
      by (auto simp: all_points_def)
    with valid [of segment] show ?thesis
      by (auto simp: valid_segment_def list_all_iff extreme_def)
  qed
  then have "filter (\<lambda>p. extreme (latitude p)) (all_points r) = []"
    by (simp add: filter_empty_conv)
  then have "length (filter (\<lambda>(i, j, lat). extreme lat) (indexed_latitudes r)) = 0"
    by (simp add: length_filter_indexed_latitudes)
  then have 2: "\<exists>s. validate_coordinates repr r = Inr s \<and> issues s = []"
    by (simp add: validate_coordinates_eq)
  have "concat (map (\<lambda>(i, segment). timestamp_findings i segment)
                    (enumerate 0 (segments r))) = []"
  proof (rule concat_findings_empty)
    fix i x assume "(i, x) \<in> set (enumerate 0 (segments r))"
    then have "valid_segment x" by (intro valid in_enum)
    then show "timestamp_findings i x = []"
      by (intro timestamp_findings_valid) (simp add: valid_segment_def)
  qed
  then have 3: "\<exists>s. validate_timestamps r = Inr s \<and> issues s = []"
    by (simp add: validate_timestamps_eq)
  from 1 2 3 show ?thesis by blast
qed

theorem validators_empty_on_valid_route_witness:
  "fully_valid (rt [seg [pt 10 (Some 1), pt 85 (Some 2)], seg [pt 0 None, pt (- 85) None]]) \<and>
   (\<exists>s. validate_segments
           (rt [seg [pt 10 (Some 1), pt 85 (Some 2)], seg [pt 0 None, pt (- 85) None]]) = Inr s
        \<and> issues s = []) \<and>
   (\<exists>s. validate_coordinates repr_sample
           (rt [seg [pt 10 (Some 1), pt 85 (Some 2)], seg [pt 0 None, pt (- 85) None]]) = Inr s
        \<and> issues s = []) \<and>
   (\<exists>s. validate_timestamps
           (rt [seg [pt 10 (Some 1), pt 85 (Some 2)], seg [pt 0 None, pt (- 85) None]]) = Inr s
        \<and> issues s = [])"
proof -
  have v: "fully_valid
             (rt [seg [pt 10 (Some 1), pt 85 (Some 2)], seg [pt 0 None, pt (- 85) None]])"
    by (simp add: fully_valid_def valid_segment_def timestamps_consistent_def
          present_timestamps_def rt_def seg_def pt_def)
  from v validators_empty_on_valid_route [OF v, of repr_sample] show ?thesis by blast
qed

subsection \<open>Exceptions\<close>






lemma comparable_enumerate:
  "list_all P xs \<Longrightarrow> list_all (\<lambda>(i, x). P x) (enumerate n xs)"
  by (induction xs arbitrary: n) simp_all




text \<open>
  Where all timestamps of each segment are of one kind, \<open>validate_timestamps\<close> on
  \<open>datetime\<close> timestamps returns the list that the validator of the data model returns
  on the positions of the timestamps on the time line.
\<close>

lemma timestamp_erase_point [simp]:
  "timestamp (erase_point p) = map_option instant (dt_timestamp p)"
  by (simp add: erase_point_def)

lemma points_erase_segment [simp]: "points (erase_segment segment) = map erase_point (dt_points segment)"
  by (simp add: erase_segment_def)

lemma less_datetime_instant: "same_kind x y \<Longrightarrow> less_datetime x y = Inr (instant x < instant y)"
  by (cases x; cases y) simp_all

lemma instant_inject: "same_kind x y \<Longrightarrow> instant x = instant y \<Longrightarrow> x = y"
  by (cases x; cases y) simp_all

lemma in_present_timestamps:
  "p \<in> set pts \<Longrightarrow> dt_timestamp p = Some t \<Longrightarrow> t \<in> set (List.map_filter dt_timestamp pts)"
  by (induction pts) (auto split: option.splits)

lemma dt_earlier_erase:
  assumes "\<And>t u. dt_timestamp p = Some t \<Longrightarrow> dt_timestamp q = Some u \<Longrightarrow> same_kind t u"
  shows "dt_earlier (dt_timestamp p) (dt_timestamp q) =
           Inr (earlier (timestamp (erase_point p)) (timestamp (erase_point q)))"
  using assms by (cases "dt_timestamp p"; cases "dt_timestamp q") (simp_all add: less_datetime_instant)

lemma dt_order_loop_erase:
  assumes "same_kind_segment segment"
    and "\<forall>j \<in> set js. Suc 0 \<le> j \<and> j < length (dt_points segment)"
  shows "dt_order_loop (dt_points segment) js = order_loop (points (erase_segment segment)) js"
  using assms(2)
proof (induction js)
  case Nil
  then show ?case by simp
next
  case (Cons j js)
  let ?pts = "dt_points segment"
  from Cons.prems have j: "Suc 0 \<le> j" "j < length ?pts" by simp_all
  have kinds: "same_kind t u"
    if "dt_timestamp (?pts ! j) = Some t" "dt_timestamp (?pts ! (j - Suc 0)) = Some u" for t u
  proof -
    from j have "?pts ! j \<in> set ?pts" "?pts ! (j - Suc 0) \<in> set ?pts" by simp_all
    with that have "t \<in> set (List.map_filter dt_timestamp ?pts)"
      "u \<in> set (List.map_filter dt_timestamp ?pts)"
      by (auto intro: in_present_timestamps)
    with assms(1) show ?thesis
      by (auto simp: same_kind_segment_def Let_def list_all_iff)
  qed
  have e: "dt_earlier (dt_timestamp (?pts ! j)) (dt_timestamp (?pts ! (j - Suc 0))) =
           Inr (earlier (timestamp (erase_point (?pts ! j)))
                        (timestamp (erase_point (?pts ! (j - Suc 0)))))"
    by (rule dt_earlier_erase) (rule kinds)
  from Cons have ih: "dt_order_loop ?pts js = order_loop (points (erase_segment segment)) js"
    by simp
  show ?case
    using j e ih by (simp add: getitem_in_range getitem_pred_in_range)
qed

lemma map_filter_erase:
  "List.map_filter timestamp (map erase_point pts) = map instant (List.map_filter dt_timestamp pts)"
  by (induction pts) (auto split: option.splits)

lemma card_present_erase:
  assumes "same_kind_segment segment"
  shows "card (set (List.map_filter timestamp (points (erase_segment segment)))) =
         card (set (List.map_filter dt_timestamp (dt_points segment)))"
proof -
  have "inj_on instant (set (List.map_filter dt_timestamp (dt_points segment)))"
    using assms
    by (auto simp: inj_on_def same_kind_segment_def Let_def list_all_iff intro: instant_inject)
  then show ?thesis
    by (simp add: map_filter_erase card_image)
qed

lemma dt_truthy_iff [simp]: "dt_truthy t \<longleftrightarrow> t \<noteq> None"
  by (cases t) simp_all

lemma has_timestamps_erase:
  "has_timestamps (erase_segment segment) \<longleftrightarrow>
     list_ex (\<lambda>p. dt_truthy (dt_timestamp p)) (dt_points segment)"
  by (auto simp: has_timestamps_def list_ex_iff)

lemma missing_erase:
  "list_ex (\<lambda>p. timestamp p = None) (points (erase_segment segment)) \<longleftrightarrow>
     list_ex (\<lambda>p. dt_timestamp p = None) (dt_points segment)"
  by (auto simp: list_ex_iff)

lemma inconsistent_presence_erase:
  "inconsistent_presence (erase_segment segment) \<longleftrightarrow>
     list_ex (\<lambda>p. dt_truthy (dt_timestamp p)) (dt_points segment) \<and>
     list_ex (\<lambda>p. dt_timestamp p = None) (dt_points segment)"
  using has_timestamps_erase [of segment] missing_erase [of segment]
  by (simp add: inconsistent_presence_def has_timestamps_def)

lemma duplicate_timestamps_erase:
  assumes "same_kind_segment segment"
  shows "duplicate_timestamps (erase_segment segment) \<longleftrightarrow>
           card (set (List.map_filter dt_timestamp (dt_points segment)))
             < length (List.map_filter dt_timestamp (dt_points segment))"
proof -
  have "length (List.map_filter timestamp (points (erase_segment segment))) =
        length (List.map_filter dt_timestamp (dt_points segment))"
    by (simp add: map_filter_erase)
  with card_present_erase [OF assms] show ?thesis
    by (simp add: duplicate_timestamps_def present_timestamps_def
          card_less_length_iff [symmetric])
qed

lemma dt_timestamps_loop_step:
  assumes "same_kind_segment segment"
  shows "dt_timestamps_loop ((i, segment) # rest) s =
           dt_timestamps_loop rest
             (s\<lparr>dt_issues := dt_issues s @ timestamp_findings i (erase_segment segment)\<rparr>)"
proof -
  have o: "dt_order_loop (dt_points segment) [Suc 0 ..< length (dt_points segment)] =
           Inr (out_of_order (erase_segment segment))"
    using dt_order_loop_erase [OF assms, of "[Suc 0 ..< length (dt_points segment)]"]
      order_loop_out_of_order [of "erase_segment segment"]
    by simp
  show ?thesis
    by (simp add: o timestamp_findings_def has_timestamps_erase inconsistent_presence_erase
          duplicate_timestamps_erase [OF assms] dt_append_issue_def Let_def)
qed

lemma dt_timestamps_loop_eq:
  "list_all (\<lambda>(i, segment). same_kind_segment segment) es \<Longrightarrow>
     dt_timestamps_loop es s =
       Inr (s\<lparr>dt_issues := dt_issues s @
              concat (map (\<lambda>(i, segment). timestamp_findings i (erase_segment segment)) es)\<rparr>)"
proof (induction es arbitrary: s)
  case Nil
  then show ?case by simp
next
  case (Cons e es)
  obtain i segment where e: "e = (i, segment)" by (cases e)
  with Cons.prems have k: "same_kind_segment segment" by simp
  from Cons have ih: "\<And>s. dt_timestamps_loop es s =
       Inr (s\<lparr>dt_issues := dt_issues s @
              concat (map (\<lambda>(i, segment). timestamp_findings i (erase_segment segment)) es)\<rparr>)"
    by simp
  show ?case
    unfolding e dt_timestamps_loop_step [OF k] by (simp add: ih)
qed

lemma enumerate_map_snd:
  "map (\<lambda>(i, x). f i (g x)) (enumerate n xs) = map (\<lambda>(i, y). f i y) (enumerate n (map g xs))"
  by (induction xs arbitrary: n) simp_all

lemma segments_on_time_line: "segments (on_time_line r) = map erase_segment (dt_segments r)"
  by (simp add: on_time_line_def)

lemma dt_validate_timestamps_agrees:
  assumes "list_all same_kind_segment (dt_segments r)"
  shows "\<exists>s s'. dt_validate_timestamps r = Inr s \<and> validate_timestamps (on_time_line r) = Inr s'
           \<and> dt_issues s = issues s'"
proof -
  from assms have "list_all (\<lambda>(i, segment). same_kind_segment segment)
                     (enumerate 0 (dt_segments r))"
    by (rule comparable_enumerate)
  then show ?thesis
    by (simp add: dt_validate_timestamps_def dt_init_state_def dt_timestamps_loop_eq
          validate_timestamps_eq segments_on_time_line enumerate_map_snd)
qed

subsection \<open>The route after a call\<close>

text \<open>
  Claim C6. For every route, each of the three validators leaves the route unchanged:
  the call returns, and the route of the final state is the route passed in, name,
  segments and points alike.
\<close>

theorem validators_leave_route_unchanged:
  "(\<exists>s. validate_segments r = Inr s \<and> route s = r) \<and>
   (\<exists>s. validate_coordinates repr r = Inr s \<and> route s = r) \<and>
   (\<exists>s. validate_timestamps r = Inr s \<and> route s = r)"
  by (simp add: validate_segments_eq validate_coordinates_eq validate_timestamps_eq)


subsection \<open>The \<open>convert\<close> command\<close>

lemma figure_emit [simp]: "figure (emit e s) = figure s"
  by (simp add: emit_def)

lemma emitted_emit [simp]: "emitted (emit e s) = emitted s @ [e]"
  by (simp add: emit_def)

lemma exported_emit [simp]: "exported (emit e s) = exported s"
  by (simp add: emit_def)

lemma figure_draw [simp]: "figure (draw f s) = figure s @ [f]"
  by (simp add: draw_def)

lemma emitted_draw [simp]: "emitted (draw f s) = emitted s"
  by (simp add: draw_def)

lemma exported_draw [simp]: "exported (draw f s) = exported s"
  by (simp add: draw_def)

lemma marker_failure_is_caught:
  assumes "create_figure_raises c = None" and "render_route_raises c = None"
    and "opt_markers opts" and "add_distance_markers_raises c = Some e"
  shows "\<exists>s. convert_render opts c = Inr s \<and>
           Log_warning (''Error adding markers: '' @ message e) \<in> set (emitted s) \<and>
           Distance_markers \<notin> set (figure s)"
  using assms
  by (auto simp: convert_render_def markers_block_def overlay_block_def Let_def
        split: option.splits)

lemma overlay_failure_is_caught:
  assumes "create_figure_raises c = None" and "render_route_raises c = None"
    and "opt_overlay opts" and "add_overlay_raises c = Some e"
  shows "\<exists>s. convert_render opts c = Inr s \<and>
           Log_warning (''Failed to add overlay: '' @ message e) \<in> set (emitted s) \<and>
           Info_overlay \<notin> set (figure s)"
  using assms
  by (auto simp: convert_render_def markers_block_def overlay_block_def Let_def
        split: option.splits)

lemma convert_completes_with_format_and_color:
  assumes "create_figure_raises c = None" and "render_route_raises c = None"
    and "opt_markers opts" and "add_distance_markers_raises c = Some e"
    and "format_list cli = Some fl" and "export_multiple_raises c = None"
    and "color cli = Some col"
  shows "\<exists>s. convert cli opts c = (Returns_None, s) \<and>
           Log_warning (''Error adding markers: '' @ message e) \<in> set (emitted s) \<and>
           exported s = [(fl, figure s)] \<and> Distance_markers \<notin> set (figure s)"
  using assms
  by (auto simp: convert_def convert_body_def convert_export_def convert_summary_def
        convert_render_def markers_block_def overlay_block_def Let_def
        split: option.splits)

lemma convert_fails_without_format:
  assumes "format_list cli = None"
  shows "fst (convert cli opts c) \<noteq> Returns_None \<and> exported (snd (convert cli opts c)) = []"
  using assms
  by (auto simp: convert_def convert_body_def convert_export_def export_failed_def
        convert_render_def rendering_failed_def markers_block_def overlay_block_def Let_def
        split: option.splits sum.splits)

lemma convert_fails_without_color:
  assumes "color cli = None"
  shows "fst (convert cli opts c) \<noteq> Returns_None"
  using assms
  by (auto simp: convert_def convert_body_def convert_summary_def
        split: option.splits sum.splits abort.splits prod.splits)


subsection \<open>Distance\<close>

lemma haversine_minus: "haversine (- x) = haversine x"
  by (simp add: haversine_def)

lemma radians_diff: "radians (x - y) = - radians (y - x)"
  by (simp add: radians_def field_simps)

text \<open>
  Claim C8. For every valid point \<open>a\<close>, the distance from \<open>a\<close> to \<open>a\<close> is 0, and for
  every pair of valid points the distance is symmetric.
\<close>

theorem distance_zero_and_symmetric:
  "valid_point a \<Longrightarrow> valid_point b \<Longrightarrow> distance a a = 0 \<and> distance a b = distance b a"
proof -
  have "distance a a = 0"
    by (simp add: distance_def radians_def haversine_def)
  moreover have "distance a b = distance b a"
    unfolding distance_def Let_def
    by (simp add: radians_diff [of "latitude a" "latitude b"]
          radians_diff [of "longitude a" "longitude b"] haversine_minus mult.commute)
  ultimately show "distance a a = 0 \<and> distance a b = distance b a" by simp
qed

theorem distance_zero_and_symmetric_witness:
  "valid_point (pt 0 None) \<and> valid_point (pt 45 None) \<and>
   distance (pt 0 None) (pt 0 None) = 0 \<and>
   distance (pt 0 None) (pt 45 None) = distance (pt 45 None) (pt 0 None)"
proof -
  have v: "valid_point (pt 0 None)" "valid_point (pt 45 None)"
    by (simp_all add: valid_point_def pt_def)
  from distance_zero_and_symmetric [OF v] v show ?thesis by simp
qed

subsection \<open>Durations\<close>

lemma map_filter_all_equal:
  "ps \<noteq> [] \<Longrightarrow> list_all (\<lambda>p. timestamp p = Some t) ps \<Longrightarrow> set (List.map_filter timestamp ps) = {t}"
  by (induction ps rule: induct_list012) auto

text \<open>
  Claim C10. \<open>format_duration\<close> returns \<open>Unknown\<close> when given no duration and when
  given the zero duration; so a route whose timestamps are all equal (its total
  duration is zero) is displayed like a route in which a timestamp is missing (its
  total duration is unknown).
\<close>

theorem format_duration_unknown:
  "format_duration None = ''Unknown'' \<and>
   format_duration (Some \<lparr>days = 0, seconds = 0, microseconds = 0\<rparr>) = ''Unknown'' \<and>
   (all_points r \<noteq> [] \<and> list_all (\<lambda>p. timestamp p = Some t) (all_points r) \<longrightarrow>
      total_duration r = Some \<lparr>days = 0, seconds = 0, microseconds = 0\<rparr> \<and>
      format_duration (total_duration r) = ''Unknown'') \<and>
   (list_ex (\<lambda>p. timestamp p = None) (all_points r) \<longrightarrow>
      total_duration r = None \<and> format_duration (total_duration r) = ''Unknown'')"
proof -
  have a: "format_duration None = ''Unknown''"
    by (simp add: format_duration_def truthy_timedelta_def)
  have b: "format_duration (Some \<lparr>days = 0, seconds = 0, microseconds = 0\<rparr>) = ''Unknown''"
    by (simp add: format_duration_def truthy_timedelta_def)
  have c: "total_duration r = Some \<lparr>days = 0, seconds = 0, microseconds = 0\<rparr>"
    if "all_points r \<noteq> []" "list_all (\<lambda>p. timestamp p = Some t) (all_points r)"
  proof -
    from that have "set (List.map_filter timestamp (all_points r)) = {t}"
      by (rule map_filter_all_equal)
    moreover from that(2) have "\<not> list_ex (\<lambda>p. timestamp p = None) (all_points r)"
      by (auto simp: list_all_iff list_ex_iff)
    ultimately show ?thesis
      using that(1) by (simp add: total_duration_def timedelta_of_def Let_def)
  qed
  have d: "total_duration r = None" if "list_ex (\<lambda>p. timestamp p = None) (all_points r)"
    using that by (simp add: total_duration_def Let_def)
  show ?thesis using a b c d by simp
qed

theorem format_duration_unknown_witness:
  "all_points (rt [seg [pt 0 (Some 7), pt 1 (Some 7)]]) \<noteq> [] \<and>
   list_all (\<lambda>p. timestamp p = Some 7) (all_points (rt [seg [pt 0 (Some 7), pt 1 (Some 7)]])) \<and>
   format_duration (total_duration (rt [seg [pt 0 (Some 7), pt 1 (Some 7)]])) = ''Unknown'' \<and>
   list_ex (\<lambda>p. timestamp p = None) (all_points (rt [seg [pt 0 (Some 7), pt 1 None]])) \<and>
   format_duration (total_duration (rt [seg [pt 0 (Some 7), pt 1 None]])) = ''Unknown''"
proof -
  have 1: "all_points (rt [seg [pt 0 (Some 7), pt 1 (Some 7)]]) \<noteq> []"
    and 2: "list_all (\<lambda>p. timestamp p = Some 7)
              (all_points (rt [seg [pt 0 (Some 7), pt 1 (Some 7)]]))"
    and 3: "list_ex (\<lambda>p. timestamp p = None) (all_points (rt [seg [pt 0 (Some 7), pt 1 None]]))"
    by (simp_all add: all_points_def rt_def seg_def pt_def)
  from 1 2 format_duration_unknown [of "rt [seg [pt 0 (Some 7), pt 1 (Some 7)]]" 7]
  have "format_duration (total_duration (rt [seg [pt 0 (Some 7), pt 1 (Some 7)]])) = ''Unknown''"
    by blast
  moreover from 3 format_duration_unknown [of "rt [seg [pt 0 (Some 7), pt 1 None]]" 0]
  have "format_duration (total_duration (rt [seg [pt 0 (Some 7), pt 1 None]])) = ''Unknown''"
    by blast
  ultimately show ?thesis using 1 2 3 by blast
qed

end
